theory Spec2Isabelle
  imports Main
begin

section \<open>Data model\<close>

text \<open>
  The plugin bridges Mattermost channels and MS Teams channels. The embedding follows
  \<^verbatim>\<open>plugin.go\<close> (package main, the second part of \<^verbatim>\<open>server/testutils/data.go\<close>)
  and \<^verbatim>\<open>server/command.go\<close>. Go strings are \<^typ>\<open>string\<close>, Go maps are partial
  functions, and a map field that may still be \<^verbatim>\<open>nil\<close> is an option of a map.
\<close>

record ChannelLink =
  MattermostTeam :: string
  MattermostChannel :: string
  MSTeamsTeam :: string
  MSTeamsChannel :: string

text \<open>The dynamic values a post property (a Go \<^verbatim>\<open>interface{}\<close>) can hold.\<close>

datatype prop_value = PBool bool | PString string | PNumber int | PNull

text \<open>\<^verbatim>\<open>model.Post\<close>, the fields the plugin reads. \<^verbatim>\<open>Props\<close> may be \<^verbatim>\<open>nil\<close>.\<close>

record Post =
  post_Id :: string
  post_ChannelId :: string
  post_UserId :: string
  post_RootId :: string
  post_Message :: string
  post_Props :: "(string \<rightharpoonup> prop_value) option"

record User =
  user_Id :: string
  user_Username :: string

datatype channel_type = ChannelTypeOpen | ChannelTypePrivate | ChannelTypeDirect | ChannelTypeGroup

record Channel =
  channel_Id :: string
  channel_TeamId :: string
  channel_Type :: channel_type

record MSChannel =
  mschannel_ID :: string
  mschannel_DisplayName :: string

datatype permission =
  PermissionManagePublicChannelProperties | PermissionManagePrivateChannelProperties

record CommandArgs =
  args_UserId :: string
  args_ChannelId :: string
  args_TeamId :: string

record CommandResponse =
  resp_ResponseType :: string
  resp_ChannelId :: string
  resp_Text :: string
  resp_Username :: string
  resp_IconURL :: string

text \<open>
  Every call that leaves the plugin with an effect on the outside is appended to a log,
  in the order the code issues it.
\<close>

datatype call =
    LogDebug_call string
  | LogError_call string
  | KVSet_call string string
  | SendMessage_call string string string string
  | SubscribeToChannel_call string string string
  | RefreshSubscriptionPeriodically_call string
  | ClearSubscriptions_call
  | Unsubscribe_call string string
  | refreshSubscriptionPeridically_go string
  | SendEphemeralPost_call string string string string

text \<open>
  The \<^verbatim>\<open>Plugin\<close> struct, together with the two pieces of the outside world the code
  writes to: the key-value store of the Mattermost server (\<open>kv\<close>) and the log of calls.
  A mutex is \<open>True\<close> while it is held. A client handle is \<open>True\<close> once it has been set.
\<close>

record Plugin =
  botID :: string
  userID :: string
  msteamsAppClientMutex :: bool
  msteamsAppClient :: bool
  msteamsBotClientMutex :: bool
  msteamsBotClient :: bool
  subscriptionsToLinks :: "(string \<rightharpoonup> ChannelLink) option"
  channelsLinked :: "(string \<rightharpoonup> ChannelLink) option"
  kv :: "string \<rightharpoonup> string"
  calls :: "call list"

text \<open>What the remote side answers to a request to delete a subscription.\<close>

datatype unsubscribe_result = Unsubscribed | SubscriptionNotFound | UnsubscribeFailed string

text \<open>
  The collaborators the plugin consumes: the Mattermost plugin API, the MS Teams client,
  the JSON codec. Each is a function of the arguments the code passes. A Go error is its
  message, \<open>None\<close> for \<^verbatim>\<open>nil\<close>; a call returning a value or an error is a sum with the
  error on the left. \<open>json_Unmarshal\<close> gives the entries of the decoded map, each key once,
  in the order a \<^verbatim>\<open>range\<close> over the map visits them, and \<open>None\<close> for bytes that do not
  decode. \<open>checkEnabledTeamByTeamId\<close> is a method of the plugin that the sources do not
  hold; it is taken as given.
\<close>

record env =
  API_GetChannel :: "string \<Rightarrow> Channel option"
  API_GetUser :: "string \<Rightarrow> User option"
  API_HasPermissionToChannel :: "string \<Rightarrow> string \<Rightarrow> permission \<Rightarrow> bool"
  API_KVGet_error :: "string \<Rightarrow> string option"
  API_KVSet_error :: "string \<Rightarrow> string \<Rightarrow> string option"
  SiteURL :: "string option"
  msteams_NewApp :: "string option"
  msteams_NewBot :: "string option"
  SendMessage :: "string \<Rightarrow> string \<Rightarrow> string \<Rightarrow> string \<Rightarrow> string + string"
  msteams_GetChannel :: "string \<Rightarrow> string \<Rightarrow> string + MSChannel"
  SubscribeToChannel :: "string \<Rightarrow> string \<Rightarrow> string \<Rightarrow> string + string"
  RefreshSubscriptionPeriodically :: "string \<Rightarrow> string option"
  ClearSubscriptions :: "string option"
  json_Unmarshal :: "string \<Rightarrow> (string \<times> ChannelLink) list option"
  json_Marshal :: "(string \<rightharpoonup> ChannelLink) option \<Rightarrow> string"
  msteams_Unsubscribe :: "string \<Rightarrow> string \<Rightarrow> unsubscribe_result"
  checkEnabledTeamByTeamId :: "string \<Rightarrow> bool"

text \<open>A Go function either returns or panics.\<close>

datatype panic = NilPointerDereference | NilMapAssignment

datatype 'a outcome = Panics panic | Returns 'a

section \<open>The plugin API wrappers\<close>

definition log_call :: "call \<Rightarrow> Plugin \<Rightarrow> Plugin" where
  "log_call c p = p\<lparr>calls := calls p @ [c]\<rparr>"

text \<open>
  \<^verbatim>\<open>p.API.KVSet(key, value)\<close>: the store replaces whatever the key held. The code
  ignores the error the call may return; a failed write leaves the store as it was.
\<close>

definition KVSet :: "env \<Rightarrow> string \<Rightarrow> string \<Rightarrow> Plugin \<Rightarrow> Plugin \<times> string option" where
  "KVSet e key v p =
     (let p1 = log_call (KVSet_call key v) p
      in case API_KVSet_error e key v of
           Some err \<Rightarrow> (p1, Some err)
         | None \<Rightarrow> (p1\<lparr>kv := (kv p1)(key \<mapsto> v)\<rparr>, None))"

text \<open>
  \<^verbatim>\<open>p.API.KVGet(key)\<close>: the stored bytes, \<^verbatim>\<open>nil\<close> for a key that holds nothing
  or on an error. \<^verbatim>\<open>nil\<close> bytes are the empty string, as \<^verbatim>\<open>string(parentID)\<close> reads them.
\<close>

definition KVGet :: "env \<Rightarrow> string \<Rightarrow> Plugin \<Rightarrow> string \<times> string option" where
  "KVGet e key p =
     (case API_KVGet_error e key of
        Some err \<Rightarrow> ('''', Some err)
      | None \<Rightarrow> (case kv p key of None \<Rightarrow> '''' | Some v \<Rightarrow> v, None))"

section \<open>Forwarding a local post: \<^verbatim>\<open>Send\<close>\<close>

text \<open>
  The two blocks of \<^verbatim>\<open>Send\<close> that make up the message ID translator. Resolving the
  remote parent of a reply reads the key \<^verbatim>\<open>mattermost_teams_\<close> followed by the root ID and
  ignores the error
  (lines 383 to 386).
\<close>

definition ResolveRemoteParent :: "env \<Rightarrow> string \<Rightarrow> Plugin \<Rightarrow> string" where
  "ResolveRemoteParent e rootId p =
     (if rootId \<noteq> '''' then fst (KVGet e (''mattermost_teams_'' @ rootId) p) else '''')"

text \<open>
  Recording a pair writes both directions, when both identifiers are non-empty
  (lines 394 to 397). Neither write looks at what the key holds.
\<close>

definition RecordMapping :: "env \<Rightarrow> string \<Rightarrow> string \<Rightarrow> Plugin \<Rightarrow> Plugin" where
  "RecordMapping e postId newMessageId p =
     (if postId \<noteq> '''' \<and> newMessageId \<noteq> '''' then
        (let p1 = fst (KVSet e (''mattermost_teams_'' @ postId) newMessageId p)
         in fst (KVSet e (''teams_mattermost_'' @ newMessageId) postId p1))
      else p)"

definition receiving_message :: string where
  "receiving_message = [CHR 0x0A, CHR 0x0A, CHR 0x0A] @ ''=> Receiving message''"

text \<open>
  \<^verbatim>\<open>Send(link, user, post)\<close> returns the pair \<^verbatim>\<open>(string, error)\<close>. A \<^verbatim>\<open>nil\<close> user
  panics at \<^verbatim>\<open>user.Username\<close>, after the debug line has been logged.
\<close>

definition Send ::
  "env \<Rightarrow> ChannelLink \<Rightarrow> User option \<Rightarrow> Post \<Rightarrow> Plugin \<Rightarrow> Plugin \<times> (string \<times> string option) outcome"
where
  "Send e link user post p =
     (let p1 = log_call (LogDebug_call receiving_message) p
      in case user of
           None \<Rightarrow> (p1, Panics NilPointerDereference)
         | Some u \<Rightarrow>
             (let text = user_Username u @ ''@mattermost: '' @ post_Message post;
                  parentID = ResolveRemoteParent e (post_RootId post) p1;
                  p2 = log_call
                         (SendMessage_call (MSTeamsTeam link) (MSTeamsChannel link) parentID text) p1
              in case SendMessage e (MSTeamsTeam link) (MSTeamsChannel link) parentID text of
                   Inl err \<Rightarrow>
                     (log_call (LogError_call ''Error creating post'') p2, Returns ('''', Some err))
                 | Inr newMessageId \<Rightarrow>
                     (RecordMapping e (post_Id post) newMessageId p2,
                      Returns (newMessageId, None))))"

text \<open>The calls to the remote \<^verbatim>\<open>SendMessage\<close> among the calls of a log.\<close>

fun is_SendMessage_call :: "call \<Rightarrow> bool" where
  "is_SendMessage_call (SendMessage_call t c parent text) = True"
| "is_SendMessage_call other = False"

section \<open>The local post hook: \<^verbatim>\<open>MessageHasBeenPosted\<close>\<close>

text \<open>Reading a Go map that may be \<^verbatim>\<open>nil\<close>: a \<^verbatim>\<open>nil\<close> map holds no key.\<close>

definition lookup_link :: "(string \<rightharpoonup> ChannelLink) option \<Rightarrow> string \<Rightarrow> ChannelLink option" where
  "lookup_link m key = (case m of None \<Rightarrow> None | Some f \<Rightarrow> f key)"

text \<open>
  The guard of lines 354 to 358: the properties are not \<^verbatim>\<open>nil\<close> and the entry
  \<^verbatim>\<open>matterbridge_\<close> followed by the plugin's user ID asserts to \<^verbatim>\<open>bool\<close>. The assertion
  succeeds for a boolean of either value and fails for an absent key and for a value of
  any other type.
\<close>

definition carries_marker :: "Plugin \<Rightarrow> Post \<Rightarrow> bool" where
  "carries_marker p post =
     (case post_Props post of
        None \<Rightarrow> False
      | Some props \<Rightarrow>
          (case props (''matterbridge_'' @ userID p) of
             Some (PBool b) \<Rightarrow> True
           | _ \<Rightarrow> False))"

text \<open>
  The hook ignores the error of \<^verbatim>\<open>GetChannel\<close> and reads \<^verbatim>\<open>channel.TeamId\<close>, which
  panics on a \<^verbatim>\<open>nil\<close> channel. \<^verbatim>\<open>go p.Send(link, user, post)\<close> starts \<^verbatim>\<open>Send\<close> on its own
  goroutine and drops its result; the model runs it to its end, so that the state returned
  holds everything the forwarding does.
\<close>

definition MessageHasBeenPosted :: "env \<Rightarrow> Post \<Rightarrow> Plugin \<Rightarrow> Plugin \<times> unit outcome" where
  "MessageHasBeenPosted e post p =
     (if carries_marker p post then (p, Returns ())
      else case API_GetChannel e (post_ChannelId post) of
             None \<Rightarrow> (p, Panics NilPointerDereference)
           | Some channel \<Rightarrow>
               (case lookup_link (channelsLinked p)
                       (channel_TeamId channel @ '':'' @ post_ChannelId post) of
                  None \<Rightarrow> (p, Returns ())
                | Some link \<Rightarrow>
                    (case Send e link (API_GetUser e (post_UserId post)) post p of
                       (p1, Panics x) \<Rightarrow> (p1, Panics x)
                     | (p1, Returns r) \<Rightarrow> (p1, Returns ()))))"

section \<open>Subscriptions and startup\<close>

definition pluginID :: string where
  "pluginID = ''com.mattermost.matterbridge-plugin''"

definition HasSuffix :: "string \<Rightarrow> string \<Rightarrow> bool" where
  "HasSuffix s suffix =
     (length suffix \<le> length s \<and> drop (length s - length suffix) s = suffix)"

text \<open>\<^verbatim>\<open>getURL\<close> dereferences the configured site URL, a pointer.\<close>

definition getURL :: "env \<Rightarrow> string outcome" where
  "getURL e =
     (case SiteURL e of
        None \<Rightarrow> Panics NilPointerDereference
      | Some url \<Rightarrow>
          Returns (if HasSuffix url ''/'' then url @ ''plugins/'' @ pluginID
                   else url @ ''/plugins/'' @ pluginID))"

definition clearSubscriptions :: "env \<Rightarrow> Plugin \<Rightarrow> Plugin \<times> string option" where
  "clearSubscriptions e p =
     (let p1 = log_call ClearSubscriptions_call p
      in case ClearSubscriptions e of
           Some err \<Rightarrow> (log_call (LogError_call ''subscription deletion failed'') p1, Some err)
         | None \<Rightarrow> (p1, None))"

text \<open>
  \<^verbatim>\<open>subscribeToChannel(ctx, link)\<close> of \<^verbatim>\<open>plugin.go\<close>. The index is written between
  \<^verbatim>\<open>Lock\<close> and \<^verbatim>\<open>Unlock\<close> of its mutex, which nothing else holds across a call, so the
  mutex is left out. Writing to an index that is still \<^verbatim>\<open>nil\<close> panics.
  \<^verbatim>\<open>RefreshSubscriptionPeriodically\<close> returns when its context is cancelled or on an
  error; the index has been written before it is called.
\<close>

definition subscribeToChannel :: "env \<Rightarrow> ChannelLink \<Rightarrow> Plugin \<Rightarrow> Plugin \<times> string option outcome" where
  "subscribeToChannel e link p =
     (let teamId = MSTeamsTeam link;
          channelId = MSTeamsChannel link
      in case getURL e of
           Panics x \<Rightarrow> (p, Panics x)
         | Returns url \<Rightarrow>
             (let notificationURL = url @ ''/'';
                  p1 = log_call (SubscribeToChannel_call teamId channelId notificationURL) p
              in case SubscribeToChannel e teamId channelId notificationURL of
                   Inl err \<Rightarrow> (p1, Returns (Some err))
                 | Inr subscriptionID \<Rightarrow>
                     (case subscriptionsToLinks p1 of
                        None \<Rightarrow> (p1, Panics NilMapAssignment)
                      | Some m \<Rightarrow>
                          (let p2 = p1\<lparr>subscriptionsToLinks := Some (m(subscriptionID \<mapsto> link))\<rparr>;
                               p3 = log_call (RefreshSubscriptionPeriodically_call subscriptionID) p2
                           in case RefreshSubscriptionPeriodically e subscriptionID of
                                Some err \<Rightarrow>
                                  (log_call (LogError_call ''error updating subscription'') p3,
                                   Returns (Some err))
                              | None \<Rightarrow> (p3, Returns None)))))"

text \<open>
  The two connect functions lock their mutex and, on an error, return without unlocking
  it. \<open>None\<close> is a call that never returns: \<^verbatim>\<open>Lock\<close> on a mutex that is held.
\<close>

definition connectTeamsAppClient :: "env \<Rightarrow> Plugin \<Rightarrow> (Plugin \<times> string option) option" where
  "connectTeamsAppClient e p =
     (if msteamsAppClientMutex p then None
      else (let p1 = p\<lparr>msteamsAppClientMutex := True\<rparr>
            in case msteams_NewApp e of
                 Some err \<Rightarrow> Some (p1, Some err)
               | None \<Rightarrow> Some (p1\<lparr>msteamsAppClient := True, msteamsAppClientMutex := False\<rparr>, None)))"

definition connectTeamsBotClient :: "env \<Rightarrow> Plugin \<Rightarrow> (Plugin \<times> string option) option" where
  "connectTeamsBotClient e p =
     (if msteamsBotClientMutex p then None
      else (let p1 = p\<lparr>msteamsBotClientMutex := True\<rparr>
            in case msteams_NewBot e of
                 Some err \<Rightarrow> Some (p1, Some err)
               | None \<Rightarrow> Some (p1\<lparr>msteamsBotClient := True, msteamsBotClientMutex := False\<rparr>, None)))"

text \<open>
  \<^verbatim>\<open>start\<close>. Each \<^verbatim>\<open>go p.subscribeToChannel(ctx, link)\<close> of the final loop is run to its
  end, one link after the other in the order of the \<^verbatim>\<open>range\<close>; the index is not
  \<^verbatim>\<open>nil\<close> there, so none of them panics at the index. The cancel function kept in
  \<^verbatim>\<open>stopSubscriptions\<close> has no part in what follows and is left out.
\<close>

definition start :: "env \<Rightarrow> Plugin \<Rightarrow> Plugin option" where
  "start e p =
     (case connectTeamsAppClient e p of
        None \<Rightarrow> None
      | Some (p1, Some err) \<Rightarrow>
          Some (log_call (LogError_call ''Unable to connect to the msteams'') p1)
      | Some (p1, None) \<Rightarrow>
          (case connectTeamsBotClient e p1 of
             None \<Rightarrow> None
           | Some (p2, Some err) \<Rightarrow>
               Some (log_call (LogError_call ''Unable to connect to the msteams'') p2)
           | Some (p2, None) \<Rightarrow>
               (case KVGet e ''channelsLinked'' p2 of
                  (channelsLinkedData, Some appErr) \<Rightarrow>
                    Some (log_call (LogError_call ''Error getting the channels linked'') p2)
                | (channelsLinkedData, None) \<Rightarrow>
                    (case json_Unmarshal e channelsLinkedData of
                       None \<Rightarrow>
                         Some (log_call (LogError_call ''Error getting the channels linked'') p2)
                     | Some entries \<Rightarrow>
                         (let p3 = p2\<lparr>channelsLinked := Some (map_of entries),
                                       subscriptionsToLinks := Some Map.empty\<rparr>;
                              p4 = fst (clearSubscriptions e p3)
                          in Some (foldl (\<lambda>q link. fst (subscribeToChannel e link q)) p4
                                     (map snd entries)))))))"

section \<open>The link and unlink commands\<close>

definition botDisplayName :: string where
  "botDisplayName = ''MS Teams''"

definition msteamsLogoURL :: string where
  "msteamsLogoURL = ''https://upload.wikimedia.org/wikipedia/commons/c/c9/Microsoft_Office_Teams_%282018%E2%80%93present%29.svg''"

text \<open>
  \<^verbatim>\<open>cmdError\<close> builds an ephemeral response that carries the failure as its text. Its
  second result, the \<^verbatim>\<open>*model.AppError\<close>, is \<^verbatim>\<open>nil\<close>, as it is at every return of the
  two commands, so a command's result is its response alone.
\<close>

definition cmdError :: "string \<Rightarrow> string \<Rightarrow> CommandResponse" where
  "cmdError channelID detailedError =
     \<lparr>resp_ResponseType = ''ephemeral'', resp_ChannelId = channelID,
      resp_Text = detailedError, resp_Username = botDisplayName,
      resp_IconURL = msteamsLogoURL\<rparr>"

text \<open>The zero response \<^verbatim>\<open>&model.CommandResponse{}\<close> of a command that went through.\<close>

definition empty_response :: CommandResponse where
  "empty_response =
     \<lparr>resp_ResponseType = '''', resp_ChannelId = '''', resp_Text = '''',
      resp_Username = '''', resp_IconURL = ''''\<rparr>"

definition sendBotEphemeralPost :: "string \<Rightarrow> string \<Rightarrow> string \<Rightarrow> Plugin \<Rightarrow> Plugin" where
  "sendBotEphemeralPost uid channelID message p =
     log_call (SendEphemeralPost_call uid (botID p) channelID message) p"

definition canLinkChannel :: "env \<Rightarrow> CommandArgs \<Rightarrow> Channel \<Rightarrow> bool" where
  "canLinkChannel e args channel =
     ((channel_Type channel = ChannelTypeOpen
         \<and> API_HasPermissionToChannel e (args_UserId args) (args_ChannelId args)
             PermissionManagePublicChannelProperties)
      \<or> (channel_Type channel = ChannelTypePrivate
         \<and> API_HasPermissionToChannel e (args_UserId args) (args_ChannelId args)
             PermissionManagePrivateChannelProperties))"

text \<open>
  Modelled from the spec: \<^verbatim>\<open>saveChannelsLinked\<close>, which the sources call and do not
  hold. The spec has every mutation followed by a synchronous write of the full set of
  links as one record that replaces the former one; \<^verbatim>\<open>start\<close> reads that record under
  the key \<^verbatim>\<open>channelsLinked\<close>. The write does not touch the map in memory, and its error
  is returned.
\<close>

definition saveChannelsLinked :: "env \<Rightarrow> Plugin \<Rightarrow> Plugin \<times> string option" where
  "saveChannelsLinked e p = KVSet e ''channelsLinked'' (json_Marshal e (channelsLinked p)) p"

text \<open>
  Modelled from the spec: the \<^verbatim>\<open>subscribeToChannel(link)\<close> with two results that
  \<^verbatim>\<open>command.go\<close> calls, which the sources do not hold (they hold the one of
  \<^verbatim>\<open>plugin.go\<close> above, with one result). The spec's \<^verbatim>\<open>Subscribe\<close> requests a remote
  subscription for the link's channel with a callback URL and, on success, registers the
  subscription ID for the link in the index; the renewal is started by the command itself.
\<close>

definition subscribeToChannel_cmd ::
  "env \<Rightarrow> ChannelLink \<Rightarrow> Plugin \<Rightarrow> Plugin \<times> (string + string) outcome"
where
  "subscribeToChannel_cmd e link p =
     (case getURL e of
        Panics x \<Rightarrow> (p, Panics x)
      | Returns url \<Rightarrow>
          (let notificationURL = url @ ''/'';
               p1 = log_call
                      (SubscribeToChannel_call (MSTeamsTeam link) (MSTeamsChannel link)
                         notificationURL) p
           in case SubscribeToChannel e (MSTeamsTeam link) (MSTeamsChannel link)
                     notificationURL of
                Inl err \<Rightarrow> (p1, Returns (Inl err))
              | Inr subscriptionID \<Rightarrow>
                  (case subscriptionsToLinks p1 of
                     None \<Rightarrow> (p1, Panics NilMapAssignment)
                   | Some m \<Rightarrow>
                       (p1\<lparr>subscriptionsToLinks := Some (m(subscriptionID \<mapsto> link))\<rparr>,
                        Returns (Inr subscriptionID)))))"

text \<open>
  Modelled from the spec: \<^verbatim>\<open>unsubscribeFromChannel(link)\<close>, which the sources call and
  do not hold. The spec's \<^verbatim>\<open>Unsubscribe\<close> requests the deletion of the link's
  subscription and removes it from the index; a subscription that the remote side no
  longer knows counts as deleted.
\<close>

definition unsubscribeFromChannel :: "env \<Rightarrow> ChannelLink \<Rightarrow> Plugin \<Rightarrow> Plugin \<times> string option" where
  "unsubscribeFromChannel e link p =
     (let p1 = log_call (Unsubscribe_call (MSTeamsTeam link) (MSTeamsChannel link)) p
      in case msteams_Unsubscribe e (MSTeamsTeam link) (MSTeamsChannel link) of
           UnsubscribeFailed err \<Rightarrow> (p1, Some err)
         | _ \<Rightarrow>
             (p1\<lparr>subscriptionsToLinks :=
                   map_option (\<lambda>m k. if m k = Some link then None else m k)
                     (subscriptionsToLinks p1)\<rparr>,
              None))"

text \<open>
  \<^verbatim>\<open>executeLinkCommand\<close>. The assignment \<^verbatim>\<open>p.channelsLinked[key] = link\<close> panics on a
  map that is still \<^verbatim>\<open>nil\<close>. \<^verbatim>\<open>go p.refreshSubscriptionPeridically\<close> starts the renewal
  in the background and is logged as started.
\<close>

definition executeLinkCommand ::
  "env \<Rightarrow> CommandArgs \<Rightarrow> string list \<Rightarrow> Plugin \<Rightarrow> Plugin \<times> CommandResponse outcome"
where
  "executeLinkCommand e args parameters p =
     (if length parameters < 2 then
        (p, Returns (cmdError (args_ChannelId args)
           ''Invalid link command, please pass the MS Teams team id and channel id as parameters.''))
      else if \<not> checkEnabledTeamByTeamId e (args_TeamId args) then
        (p, Returns (cmdError (args_ChannelId args)
           ''This team is not enabled for MS Teams sync.''))
      else case API_GetChannel e (args_ChannelId args) of
        None \<Rightarrow>
          (p, Returns (cmdError (args_ChannelId args)
             ''Unable to get the current channel information.''))
      | Some channel \<Rightarrow>
          if \<not> canLinkChannel e args channel then
            (p, Returns (cmdError (args_ChannelId args)
               ''Unable to link the channel. You have to be a channel admin to link it.''))
          else
            (case lookup_link (channelsLinked p)
                    (channel_TeamId channel @ '':'' @ channel_Id channel) of
               Some l \<Rightarrow>
                 (p, Returns (cmdError (args_ChannelId args)
                    ''A link for this channel already exists, please remove unlink the channel before you link a new one''))
             | None \<Rightarrow>
                 (case msteams_GetChannel e (parameters ! 0) (parameters ! 1) of
                    Inl err \<Rightarrow>
                      (p, Returns (cmdError (args_ChannelId args) ''MS Teams channel not found.''))
                  | Inr c \<Rightarrow>
                      (let link = \<lparr>MattermostTeam = channel_TeamId channel,
                                   MattermostChannel = channel_Id channel,
                                   MSTeamsTeam = parameters ! 0,
                                   MSTeamsChannel = parameters ! 1\<rparr>
                       in case channelsLinked p of
                            None \<Rightarrow> (p, Panics NilMapAssignment)
                          | Some m \<Rightarrow>
                              (let p1 = p\<lparr>channelsLinked :=
                                           Some (m(channel_TeamId channel @ '':'' @ channel_Id channel
                                                   \<mapsto> link))\<rparr>
                               in case subscribeToChannel_cmd e link p1 of
                                    (p2, Panics x) \<Rightarrow> (p2, Panics x)
                                  | (p2, Returns (Inl err)) \<Rightarrow>
                                      (p2, Returns (cmdError (args_ChannelId args)
                                         ''Unable to subscribe to channel, probably it is already link to another channel.''))
                                  | (p2, Returns (Inr subscriptionID)) \<Rightarrow>
                                      (let p3 = log_call
                                                  (refreshSubscriptionPeridically_go subscriptionID) p2
                                       in case saveChannelsLinked e p3 of
                                            (p4, Some err) \<Rightarrow>
                                              (p4, Returns (cmdError (args_ChannelId args)
                                                 ''Unable to store the new link, please try again.''))
                                          | (p4, None) \<Rightarrow>
                                              (sendBotEphemeralPost (args_UserId args)
                                                 (args_ChannelId args)
                                                 ''The MS Teams channel is now linked to this Mattermost channel''
                                                 p4,
                                               Returns empty_response)))))))"

text \<open>
  \<^verbatim>\<open>executeUnlinkCommand\<close>. \<^verbatim>\<open>delete\<close> removes the key from the map; it is reached
  only after the key has been found there.
\<close>

definition executeUnlinkCommand ::
  "env \<Rightarrow> CommandArgs \<Rightarrow> Plugin \<Rightarrow> Plugin \<times> CommandResponse outcome"
where
  "executeUnlinkCommand e args p =
     (case API_GetChannel e (args_ChannelId args) of
        None \<Rightarrow>
          (p, Returns (cmdError (args_ChannelId args)
             ''Unable to get the current channel information.''))
      | Some channel \<Rightarrow>
          if \<not> canLinkChannel e args channel then
            (p, Returns (cmdError (args_ChannelId args)
               ''Unable to unlink the channel, you has to be a channel admin to unlink it.''))
          else
            (case lookup_link (channelsLinked p)
                    (channel_TeamId channel @ '':'' @ channel_Id channel) of
               None \<Rightarrow>
                 (p, Returns (cmdError (args_ChannelId args)
                    (''Link doesn'' @ [CHR 0x27] @ ''t exist.'')))
             | Some link \<Rightarrow>
                 (case unsubscribeFromChannel e link p of
                    (p1, Some err) \<Rightarrow>
                      (p1, Returns (cmdError (args_ChannelId args)
                         ''Unable to store unsubscribe from channel, please try again.''))
                  | (p1, None) \<Rightarrow>
                      (let p2 = p1\<lparr>channelsLinked :=
                                   map_option
                                     (\<lambda>m. m(channel_TeamId channel @ '':'' @ channel_Id channel := None))
                                     (channelsLinked p1)\<rparr>
                       in case saveChannelsLinked e p2 of
                            (p3, Some err) \<Rightarrow>
                              (p3, Returns (cmdError (args_ChannelId args)
                                 ''Unable to store the new link, please try again.''))
                          | (p3, None) \<Rightarrow>
                              (sendBotEphemeralPost (args_UserId args) (args_ChannelId args)
                                 ''The MS Teams channel is no longer linked to this Mattermost channel''
                                 p3,
                               Returns empty_response)))))"

text \<open>
  Two shorthands for the statements below: the key under which both commands file the
  link of a channel, and the link the link command builds from its parameters.
\<close>

abbreviation link_key :: "Channel \<Rightarrow> string" where
  "link_key channel \<equiv> channel_TeamId channel @ '':'' @ channel_Id channel"

abbreviation link_of :: "Channel \<Rightarrow> string list \<Rightarrow> ChannelLink" where
  "link_of channel parameters \<equiv>
     \<lparr>MattermostTeam = channel_TeamId channel, MattermostChannel = channel_Id channel,
      MSTeamsTeam = parameters ! 0, MSTeamsChannel = parameters ! 1\<rparr>"

section \<open>A concrete scenario\<close>

text \<open>
  The scenario of the specification: the local channel \<open>C1\<close> of team \<open>T1\<close>, the remote
  channel \<open>rC\<close> of team \<open>rT\<close>, a user \<open>U\<close> who posts \<open>hello\<close>, and collaborators that
  answer every call with success. The theorems below are instantiated on it.
\<close>

definition scenario_link :: ChannelLink where
  "scenario_link =
     \<lparr>MattermostTeam = ''T1'', MattermostChannel = ''C1'',
      MSTeamsTeam = ''rT'', MSTeamsChannel = ''rC''\<rparr>"

definition scenario_channel :: Channel where
  "scenario_channel =
     \<lparr>channel_Id = ''C1'', channel_TeamId = ''T1'', channel_Type = ChannelTypeOpen\<rparr>"

definition scenario_user :: User where
  "scenario_user = \<lparr>user_Id = ''u1'', user_Username = ''U''\<rparr>"

definition scenario_env :: env where
  "scenario_env =
     \<lparr>API_GetChannel =
        (\<lambda>c. if c = ''C1'' then Some scenario_channel else None),
      API_GetUser =
        (\<lambda>u. if u = ''u1'' then Some scenario_user else None),
      API_HasPermissionToChannel = (\<lambda>u c perm. True),
      API_KVGet_error = (\<lambda>k. None),
      API_KVSet_error = (\<lambda>k v. None),
      SiteURL = Some ''https://mm.example.com'',
      msteams_NewApp = None,
      msteams_NewBot = None,
      SendMessage = (\<lambda>t c parent text. Inr ''remotePostID''),
      msteams_GetChannel = (\<lambda>t c. Inr \<lparr>mschannel_ID = c, mschannel_DisplayName = ''General''\<rparr>),
      SubscribeToChannel = (\<lambda>t c u. Inr ''sub1''),
      RefreshSubscriptionPeriodically = (\<lambda>s. None),
      ClearSubscriptions = None,
      json_Unmarshal = (\<lambda>d. if d = ''{}'' then Some [] else None),
      json_Marshal = (\<lambda>m. ''snapshot''),
      msteams_Unsubscribe = (\<lambda>t c. Unsubscribed),
      checkEnabledTeamByTeamId = (\<lambda>t. True)\<rparr>"

definition scenario_plugin :: Plugin where
  "scenario_plugin =
     \<lparr>botID = ''bot'', userID = ''bridge'',
      msteamsAppClientMutex = False, msteamsAppClient = True,
      msteamsBotClientMutex = False, msteamsBotClient = True,
      subscriptionsToLinks = Some Map.empty,
      channelsLinked = Some Map.empty,
      kv = Map.empty,
      calls = []\<rparr>"

definition scenario_args :: CommandArgs where
  "scenario_args = \<lparr>args_UserId = ''u1'', args_ChannelId = ''C1'', args_TeamId = ''T1''\<rparr>"

definition scenario_post :: Post where
  "scenario_post =
     \<lparr>post_Id = ''localPostID'', post_ChannelId = ''C1'', post_UserId = ''u1'',
      post_RootId = '''', post_Message = ''hello'', post_Props = None\<rparr>"

text \<open>The plugin after the link command of the scenario has run.\<close>

definition scenario_linked :: Plugin where
  "scenario_linked =
     fst (executeLinkCommand scenario_env scenario_args [''rT'', ''rC''] scenario_plugin)"

text \<open>The plugin after the unlink command has then run.\<close>

definition scenario_unlinked :: Plugin where
  "scenario_unlinked = fst (executeUnlinkCommand scenario_env scenario_args scenario_linked)"

text \<open>A post that carries the marker of the bridge whose user ID is \<open>bridge\<close>.\<close>

definition scenario_marked_post :: Post where
  "scenario_marked_post =
     scenario_post\<lparr>post_Props := Some [''matterbridge_bridge'' \<mapsto> PBool True]\<rparr>"

text \<open>Collaborators whose \<^verbatim>\<open>SendMessage\<close> fails.\<close>

definition scenario_env_send_fails :: env where
  "scenario_env_send_fails =
     scenario_env\<lparr>SendMessage := \<lambda>t c parent text. Inl ''remote unavailable''\<rparr>"

text \<open>Collaborators whose store refuses the snapshot of the links.\<close>

definition scenario_env_store_fails :: env where
  "scenario_env_store_fails =
     scenario_env\<lparr>API_KVSet_error :=
                    \<lambda>k v. if k = ''channelsLinked'' then Some ''store unavailable'' else None\<rparr>"

text \<open>Collaborators whose MS Teams side does not know the channel.\<close>

definition scenario_env_no_remote_channel :: env where
  "scenario_env_no_remote_channel =
     scenario_env\<lparr>msteams_GetChannel := \<lambda>t c. Inl ''not found''\<rparr>"

text \<open>
  The plugin of a process that has just been activated, before \<^verbatim>\<open>start\<close>: both maps
  are \<^verbatim>\<open>nil\<close>. The store holds a snapshot that does not decode.
\<close>

definition scenario_activated :: Plugin where
  "scenario_activated =
     \<lparr>botID = '''', userID = ''bridge'',
      msteamsAppClientMutex = False, msteamsAppClient = False,
      msteamsBotClientMutex = False, msteamsBotClient = False,
      subscriptionsToLinks = None,
      channelsLinked = None,
      kv = [''channelsLinked'' \<mapsto> ''{unfinished''],
      calls = []\<rparr>"

section \<open>Properties\<close>

lemma kv_log_call [simp]: "kv (log_call c p) = kv p"
  by (simp add: log_call_def)

lemma calls_log_call [simp]: "calls (log_call c p) = calls p @ [c]"
  by (simp add: log_call_def)

lemma ResolveRemoteParent_log_call:
  "ResolveRemoteParent e r (log_call c p) = ResolveRemoteParent e r p"
  by (simp add: ResolveRemoteParent_def KVGet_def split: option.splits)

lemmas scenario_defs = scenario_env_def scenario_plugin_def scenario_post_def scenario_link_def
  scenario_user_def scenario_args_def scenario_channel_def

text \<open>The link command of the scenario goes through; this is the plugin it leaves.\<close>

lemma scenario_linked_eq:
  "scenario_linked =
     \<lparr>botID = ''bot'', userID = ''bridge'',
      msteamsAppClientMutex = False, msteamsAppClient = True,
      msteamsBotClientMutex = False, msteamsBotClient = True,
      subscriptionsToLinks = Some [''sub1'' \<mapsto> scenario_link],
      channelsLinked = Some [''T1:C1'' \<mapsto> scenario_link],
      kv = [''channelsLinked'' \<mapsto> ''snapshot''],
      calls =
        [SubscribeToChannel_call ''rT'' ''rC''
           ''https://mm.example.com/plugins/com.mattermost.matterbridge-plugin/'',
         refreshSubscriptionPeridically_go ''sub1'',
         KVSet_call ''channelsLinked'' ''snapshot'',
         SendEphemeralPost_call ''u1'' ''bot'' ''C1''
           ''The MS Teams channel is now linked to this Mattermost channel'']\<rparr>"
  by (simp add: scenario_linked_def executeLinkCommand_def scenario_defs canLinkChannel_def
        lookup_link_def subscribeToChannel_cmd_def getURL_def HasSuffix_def pluginID_def
        saveChannelsLinked_def KVSet_def sendBotEphemeralPost_def log_call_def Let_def)

subsection \<open>The message ID translator\<close>

text \<open>
  C1, as the code has it. \<^verbatim>\<open>Send\<close> writes the entry of a post with \<^verbatim>\<open>KVSet\<close> and never
  reads the key first, so a second recording for the same local post replaces the first:
  for non-empty \<open>a\<close> and \<open>c\<close>, and a store that accepts the write and answers the read,
  recording \<open>(a, b)\<close> and then \<open>(a, c)\<close> leaves \<open>c\<close> as the remote parent of \<open>a\<close>.
  The last writer wins.
\<close>

theorem RecordMapping_last_writer_wins:
  assumes "a \<noteq> ''''" and "c \<noteq> ''''"
      and "API_KVSet_error e (''mattermost_teams_'' @ a) c = None"
      and "API_KVGet_error e (''mattermost_teams_'' @ a) = None"
  shows "ResolveRemoteParent e a (RecordMapping e a c (RecordMapping e a b p)) = c"
  using assms
  by (simp add: ResolveRemoteParent_def RecordMapping_def KVGet_def KVSet_def Let_def log_call_def
        split: option.splits)

theorem RecordMapping_last_writer_wins_witness:
  "''p1'' \<noteq> '''' \<and> ''m2'' \<noteq> ''''
   \<and> API_KVSet_error scenario_env (''mattermost_teams_'' @ ''p1'') ''m2'' = None
   \<and> API_KVGet_error scenario_env (''mattermost_teams_'' @ ''p1'') = None
   \<and> ResolveRemoteParent scenario_env ''p1''
        (RecordMapping scenario_env ''p1'' ''m2''
           (RecordMapping scenario_env ''p1'' ''m1'' scenario_plugin)) = ''m2''"
  using RecordMapping_last_writer_wins [of "''p1''" "''m2''" scenario_env "''m1''" scenario_plugin]
  by (simp add: scenario_env_def)

text \<open>
  C1 as stated (the first writer wins) fails: after recording \<open>(p1, m1)\<close> and then
  \<open>(p1, m2)\<close>, the remote parent of \<open>p1\<close> is \<open>m2\<close>.
\<close>

theorem RecordMapping_first_writer_counterexample:
  "\<not> (''m2'' \<noteq> ''m1'' \<longrightarrow>
        ResolveRemoteParent scenario_env ''p1''
          (RecordMapping scenario_env ''p1'' ''m2''
             (RecordMapping scenario_env ''p1'' ''m1'' scenario_plugin)) = ''m1'')"
  by (simp add: ResolveRemoteParent_def RecordMapping_def KVGet_def KVSet_def Let_def log_call_def
        scenario_defs)

subsection \<open>Forwarding\<close>

text \<open>
  C3. When the remote \<^verbatim>\<open>SendMessage\<close> call returns an error, \<^verbatim>\<open>Send\<close> returns that
  error with an empty message ID, the key-value store is left as it was (no mapping
  entry in either direction), and no \<^verbatim>\<open>KVSet\<close> call is issued at all: the calls made
  are the debug line, the one \<^verbatim>\<open>SendMessage\<close> and the error line.
\<close>

theorem Send_error_records_no_mapping:
  assumes "SendMessage e (MSTeamsTeam link) (MSTeamsChannel link)
             (ResolveRemoteParent e (post_RootId post) p)
             (user_Username u @ ''@mattermost: '' @ post_Message post) = Inl err"
  shows "snd (Send e link (Some u) post p) = Returns ('''', Some err)
       \<and> kv (fst (Send e link (Some u) post p)) = kv p
       \<and> calls (fst (Send e link (Some u) post p)) =
           calls p @ [LogDebug_call receiving_message,
                      SendMessage_call (MSTeamsTeam link) (MSTeamsChannel link)
                        (ResolveRemoteParent e (post_RootId post) p)
                        (user_Username u @ ''@mattermost: '' @ post_Message post),
                      LogError_call ''Error creating post'']"
  using assms by (simp add: Send_def Let_def ResolveRemoteParent_log_call)

theorem Send_error_records_no_mapping_witness:
  "SendMessage scenario_env_send_fails
       (MSTeamsTeam scenario_link) (MSTeamsChannel scenario_link)
       (ResolveRemoteParent scenario_env_send_fails (post_RootId scenario_post) scenario_linked)
       (user_Username scenario_user @ ''@mattermost: '' @ post_Message scenario_post)
     = Inl ''remote unavailable''
   \<and> snd (Send scenario_env_send_fails scenario_link (Some scenario_user) scenario_post
            scenario_linked)
       = Returns ('''', Some ''remote unavailable'')
   \<and> kv (fst (Send scenario_env_send_fails scenario_link (Some scenario_user) scenario_post
            scenario_linked)) = kv scenario_linked
   \<and> calls (fst (Send scenario_env_send_fails scenario_link (Some scenario_user) scenario_post
            scenario_linked))
       = calls scenario_linked @
         [LogDebug_call receiving_message,
          SendMessage_call ''rT'' ''rC'' '''' ''U@mattermost: hello'',
          LogError_call ''Error creating post'']"
  using Send_error_records_no_mapping
          [of scenario_env_send_fails scenario_link scenario_post scenario_linked scenario_user
              "''remote unavailable''"]
  by (simp add: scenario_env_send_fails_def scenario_defs ResolveRemoteParent_def)

text \<open>
  C10. After a successful \<^verbatim>\<open>SendMessage\<close>, \<^verbatim>\<open>Send\<close> returns the remote message ID
  and no error. It issues the two writes, local to remote and then remote to local, when
  the ID of the post and the remote message ID are both non-empty, and both entries are in
  the store when the store accepts the writes. When either ID is empty it issues no write
  and leaves the store as it was.
\<close>

theorem Send_records_mapping_when_both_ids_nonempty:
  assumes "SendMessage e (MSTeamsTeam link) (MSTeamsChannel link)
             (ResolveRemoteParent e (post_RootId post) p)
             (user_Username u @ ''@mattermost: '' @ post_Message post) = Inr newMessageId"
  shows "snd (Send e link (Some u) post p) = Returns (newMessageId, None)
       \<and> (post_Id post \<noteq> '''' \<and> newMessageId \<noteq> '''' \<longrightarrow>
            calls (fst (Send e link (Some u) post p)) =
              calls p @ [LogDebug_call receiving_message,
                         SendMessage_call (MSTeamsTeam link) (MSTeamsChannel link)
                           (ResolveRemoteParent e (post_RootId post) p)
                           (user_Username u @ ''@mattermost: '' @ post_Message post),
                         KVSet_call (''mattermost_teams_'' @ post_Id post) newMessageId,
                         KVSet_call (''teams_mattermost_'' @ newMessageId) (post_Id post)]
          \<and> (API_KVSet_error e (''mattermost_teams_'' @ post_Id post) newMessageId = None
               \<and> API_KVSet_error e (''teams_mattermost_'' @ newMessageId) (post_Id post) = None
             \<longrightarrow> kv (fst (Send e link (Some u) post p)) =
                   (kv p)(''mattermost_teams_'' @ post_Id post \<mapsto> newMessageId,
                          ''teams_mattermost_'' @ newMessageId \<mapsto> post_Id post)))
       \<and> (post_Id post = '''' \<or> newMessageId = '''' \<longrightarrow>
            calls (fst (Send e link (Some u) post p)) =
              calls p @ [LogDebug_call receiving_message,
                         SendMessage_call (MSTeamsTeam link) (MSTeamsChannel link)
                           (ResolveRemoteParent e (post_RootId post) p)
                           (user_Username u @ ''@mattermost: '' @ post_Message post)]
          \<and> kv (fst (Send e link (Some u) post p)) = kv p)"
  using assms
  by (auto simp add: Send_def Let_def ResolveRemoteParent_log_call RecordMapping_def KVSet_def
        split: option.splits)

theorem Send_records_mapping_when_both_ids_nonempty_witness:
  "(SendMessage scenario_env ''rT'' ''rC'' '''' ''U@mattermost: hello'' = Inr ''remotePostID''
    \<and> post_Id scenario_post \<noteq> '''' \<and> ''remotePostID'' \<noteq> ''''
    \<and> API_KVSet_error scenario_env ''mattermost_teams_localPostID'' ''remotePostID'' = None
    \<and> API_KVSet_error scenario_env ''teams_mattermost_remotePostID'' ''localPostID'' = None
    \<and> snd (Send scenario_env scenario_link (Some scenario_user) scenario_post scenario_linked)
        = Returns (''remotePostID'', None)
    \<and> calls (fst (Send scenario_env scenario_link (Some scenario_user) scenario_post
              scenario_linked))
        = calls scenario_linked @
          [LogDebug_call receiving_message,
           SendMessage_call ''rT'' ''rC'' '''' ''U@mattermost: hello'',
           KVSet_call ''mattermost_teams_localPostID'' ''remotePostID'',
           KVSet_call ''teams_mattermost_remotePostID'' ''localPostID'']
    \<and> kv (fst (Send scenario_env scenario_link (Some scenario_user) scenario_post
           scenario_linked))
        = (kv scenario_linked)(''mattermost_teams_localPostID'' \<mapsto> ''remotePostID'',
                               ''teams_mattermost_remotePostID'' \<mapsto> ''localPostID''))
   \<and> (post_Id (scenario_post\<lparr>post_Id := ''''\<rparr>) = ''''
    \<and> snd (Send scenario_env scenario_link (Some scenario_user)
             (scenario_post\<lparr>post_Id := ''''\<rparr>) scenario_linked)
        = Returns (''remotePostID'', None)
    \<and> calls (fst (Send scenario_env scenario_link (Some scenario_user)
             (scenario_post\<lparr>post_Id := ''''\<rparr>) scenario_linked))
        = calls scenario_linked @
          [LogDebug_call receiving_message,
           SendMessage_call ''rT'' ''rC'' '''' ''U@mattermost: hello'']
    \<and> kv (fst (Send scenario_env scenario_link (Some scenario_user)
             (scenario_post\<lparr>post_Id := ''''\<rparr>) scenario_linked)) = kv scenario_linked)"
  using Send_records_mapping_when_both_ids_nonempty
          [of scenario_env scenario_link scenario_post scenario_linked scenario_user
              "''remotePostID''"]
        Send_records_mapping_when_both_ids_nonempty
          [of scenario_env scenario_link "scenario_post\<lparr>post_Id := ''''\<rparr>" scenario_linked
              scenario_user "''remotePostID''"]
  by (simp add: scenario_defs ResolveRemoteParent_def)

text \<open>
  C5, as the code has it. A post without the marker, with no root, by a user the server
  knows, in a channel that is linked, makes the hook issue exactly one \<^verbatim>\<open>SendMessage\<close>:
  to the remote team and channel of the link, with an empty parent, and with the text made
  of the user name, \<^verbatim>\<open>@mattermost: \<close> and the message. When the send succeeds with a
  non-empty ID for a post with a non-empty ID and the store accepts the writes, the store
  then maps the local post to the remote one and the remote one to the local one. In the
  scenario the text is \<^verbatim>\<open>U@mattermost: hello\<close>.
\<close>

theorem local_post_is_sent_once_and_mapped:
  assumes "\<not> carries_marker p post"
      and "API_GetChannel e (post_ChannelId post) = Some channel"
      and "lookup_link (channelsLinked p) (channel_TeamId channel @ '':'' @ post_ChannelId post)
             = Some link"
      and "API_GetUser e (post_UserId post) = Some u"
      and "post_RootId post = ''''"
      and "SendMessage e (MSTeamsTeam link) (MSTeamsChannel link) ''''
             (user_Username u @ ''@mattermost: '' @ post_Message post) = Inr remotePostID"
      and "post_Id post \<noteq> ''''" and "remotePostID \<noteq> ''''"
      and "API_KVSet_error e (''mattermost_teams_'' @ post_Id post) remotePostID = None"
      and "API_KVSet_error e (''teams_mattermost_'' @ remotePostID) (post_Id post) = None"
  shows "filter is_SendMessage_call (calls (fst (MessageHasBeenPosted e post p))) =
           filter is_SendMessage_call (calls p) @
           [SendMessage_call (MSTeamsTeam link) (MSTeamsChannel link) ''''
              (user_Username u @ ''@mattermost: '' @ post_Message post)]
       \<and> kv (fst (MessageHasBeenPosted e post p)) =
           (kv p)(''mattermost_teams_'' @ post_Id post \<mapsto> remotePostID,
                  ''teams_mattermost_'' @ remotePostID \<mapsto> post_Id post)"
  using assms
  by (simp add: MessageHasBeenPosted_def Send_def Let_def ResolveRemoteParent_def
        RecordMapping_def KVSet_def)

theorem local_post_is_sent_once_and_mapped_witness:
  "\<not> carries_marker scenario_linked scenario_post
   \<and> API_GetChannel scenario_env ''C1'' = Some scenario_channel
   \<and> lookup_link (channelsLinked scenario_linked) ''T1:C1'' = Some scenario_link
   \<and> API_GetUser scenario_env ''u1'' = Some scenario_user
   \<and> SendMessage scenario_env ''rT'' ''rC'' '''' ''U@mattermost: hello'' = Inr ''remotePostID''
   \<and> filter is_SendMessage_call
        (calls (fst (MessageHasBeenPosted scenario_env scenario_post scenario_linked)))
       = [SendMessage_call ''rT'' ''rC'' '''' ''U@mattermost: hello'']
   \<and> kv (fst (MessageHasBeenPosted scenario_env scenario_post scenario_linked)) =
       [''channelsLinked'' \<mapsto> ''snapshot'',
        ''mattermost_teams_localPostID'' \<mapsto> ''remotePostID'',
        ''teams_mattermost_remotePostID'' \<mapsto> ''localPostID'']"
  using local_post_is_sent_once_and_mapped
          [of scenario_linked scenario_post scenario_env scenario_channel
              scenario_link scenario_user "''remotePostID''"]
  by (simp add: scenario_linked_eq scenario_defs carries_marker_def lookup_link_def)

text \<open>
  C5 as stated fails on the text: in the scenario the one \<^verbatim>\<open>SendMessage\<close> of the hook
  does not carry \<^verbatim>\<open>U: hello\<close>.
\<close>

theorem local_post_text_counterexample:
  "\<not> (filter is_SendMessage_call
         (calls (fst (MessageHasBeenPosted scenario_env scenario_post scenario_linked)))
       = [SendMessage_call ''rT'' ''rC'' '''' ''U: hello''])"
  by (simp add: scenario_linked_eq scenario_defs MessageHasBeenPosted_def carries_marker_def
        lookup_link_def Send_def Let_def ResolveRemoteParent_def RecordMapping_def KVSet_def)

subsection \<open>The anti-echo marker\<close>

text \<open>
  C4. A post whose properties hold the marker of the bridge (the key \<^verbatim>\<open>matterbridge_\<close>
  followed by the plugin's user ID, with a boolean value) is dropped by the hook: the
  plugin and the log of calls are left exactly as they were, so nothing is sent, whatever
  the links are.
\<close>

theorem marked_post_is_dropped:
  assumes "post_Props post = Some props"
      and "props (''matterbridge_'' @ userID p) = Some (PBool b)"
  shows "MessageHasBeenPosted e post p = (p, Returns ())"
  using assms by (simp add: MessageHasBeenPosted_def carries_marker_def)

theorem marked_post_is_dropped_witness:
  "post_Props scenario_marked_post = Some [''matterbridge_bridge'' \<mapsto> PBool True]
   \<and> [''matterbridge_bridge'' \<mapsto> PBool True] (''matterbridge_'' @ userID scenario_linked)
       = Some (PBool True)
   \<and> lookup_link (channelsLinked scenario_linked) ''T1:C1'' = Some scenario_link
   \<and> MessageHasBeenPosted scenario_env scenario_marked_post scenario_linked
       = (scenario_linked, Returns ())"
  using marked_post_is_dropped
          [of scenario_marked_post "[''matterbridge_bridge'' \<mapsto> PBool True]" scenario_linked True
              scenario_env]
  by (simp add: scenario_marked_post_def scenario_linked_eq lookup_link_def)

subsection \<open>Subscriptions\<close>

text \<open>
  C9. With the index initialised, \<^verbatim>\<open>subscribeToChannel\<close> adds the entry from the
  subscription ID to the link exactly when the remote subscribe call succeeds. When that
  call fails, its error is returned and the index is left as it was.
\<close>

theorem subscribeToChannel_registers_iff_subscribed:
  assumes "getURL e = Returns url"
      and "subscriptionsToLinks p = Some m"
  shows "case SubscribeToChannel e (MSTeamsTeam link) (MSTeamsChannel link) (url @ ''/'') of
           Inr subscriptionID \<Rightarrow>
             subscriptionsToLinks (fst (subscribeToChannel e link p)) =
               Some (m(subscriptionID \<mapsto> link))
         | Inl err \<Rightarrow>
             snd (subscribeToChannel e link p) = Returns (Some err)
           \<and> subscriptionsToLinks (fst (subscribeToChannel e link p)) = Some m"
  using assms
  by (simp add: subscribeToChannel_def Let_def log_call_def split: sum.splits option.splits)

theorem subscribeToChannel_registers_iff_subscribed_witness:
  "(getURL scenario_env =
      Returns ''https://mm.example.com/plugins/com.mattermost.matterbridge-plugin''
    \<and> subscriptionsToLinks scenario_plugin = Some Map.empty
    \<and> subscriptionsToLinks (fst (subscribeToChannel scenario_env scenario_link scenario_plugin))
        = Some [''sub1'' \<mapsto> scenario_link])
   \<and> (getURL (scenario_env\<lparr>SubscribeToChannel := \<lambda>t c u. Inl ''forbidden''\<rparr>) =
      Returns ''https://mm.example.com/plugins/com.mattermost.matterbridge-plugin''
    \<and> snd (subscribeToChannel (scenario_env\<lparr>SubscribeToChannel := \<lambda>t c u. Inl ''forbidden''\<rparr>)
             scenario_link scenario_plugin) = Returns (Some ''forbidden'')
    \<and> subscriptionsToLinks
         (fst (subscribeToChannel (scenario_env\<lparr>SubscribeToChannel := \<lambda>t c u. Inl ''forbidden''\<rparr>)
                 scenario_link scenario_plugin)) = Some Map.empty)"
  using subscribeToChannel_registers_iff_subscribed
          [of scenario_env "''https://mm.example.com/plugins/com.mattermost.matterbridge-plugin''"
              scenario_plugin Map.empty scenario_link]
        subscribeToChannel_registers_iff_subscribed
          [of "scenario_env\<lparr>SubscribeToChannel := \<lambda>t c u. Inl ''forbidden''\<rparr>"
              "''https://mm.example.com/plugins/com.mattermost.matterbridge-plugin''"
              scenario_plugin Map.empty scenario_link]
  by (simp add: scenario_defs getURL_def HasSuffix_def pluginID_def)

text \<open>
  C8. When both clients connect and the snapshot read from the store does not decode,
  \<^verbatim>\<open>start\<close> returns after logging the error: the registry and the subscription index are
  left as they were (nothing of the snapshot is taken over), the store is untouched, and
  the error line is the only call, so no subscription is cleared or created. In a process
  that has just been activated the registry is still \<^verbatim>\<open>nil\<close>, and from then on the hook
  forwards no post.
\<close>

theorem start_refuses_corrupt_snapshot:
  assumes "\<not> msteamsAppClientMutex p" and "\<not> msteamsBotClientMutex p"
      and "msteams_NewApp e = None" and "msteams_NewBot e = None"
      and "API_KVGet_error e ''channelsLinked'' = None"
      and "json_Unmarshal e (case kv p ''channelsLinked'' of None \<Rightarrow> '''' | Some v \<Rightarrow> v) = None"
  shows "\<exists>p'. start e p = Some p'
            \<and> channelsLinked p' = channelsLinked p
            \<and> subscriptionsToLinks p' = subscriptionsToLinks p
            \<and> kv p' = kv p
            \<and> calls p' = calls p @ [LogError_call ''Error getting the channels linked'']
            \<and> (channelsLinked p = None \<longrightarrow>
                 (\<forall>e' post. calls (fst (MessageHasBeenPosted e' post p')) = calls p'))"
  using assms
  by (simp add: start_def connectTeamsAppClient_def connectTeamsBotClient_def KVGet_def Let_def
        MessageHasBeenPosted_def lookup_link_def log_call_def split: option.splits)

theorem start_refuses_corrupt_snapshot_witness:
  "\<not> msteamsAppClientMutex scenario_activated \<and> \<not> msteamsBotClientMutex scenario_activated
   \<and> msteams_NewApp scenario_env = None \<and> msteams_NewBot scenario_env = None
   \<and> API_KVGet_error scenario_env ''channelsLinked'' = None
   \<and> json_Unmarshal scenario_env ''{unfinished'' = None
   \<and> channelsLinked scenario_activated = None
   \<and> (\<exists>p'. start scenario_env scenario_activated = Some p'
          \<and> channelsLinked p' = None
          \<and> subscriptionsToLinks p' = None
          \<and> kv p' = kv scenario_activated
          \<and> calls p' = [LogError_call ''Error getting the channels linked'']
          \<and> (\<forall>e' post. calls (fst (MessageHasBeenPosted e' post p')) = calls p'))"
  using start_refuses_corrupt_snapshot [of scenario_activated scenario_env]
  by (simp add: scenario_activated_def scenario_env_def)

subsection \<open>The link registry\<close>

lemma cmdError_not_empty [simp]: "cmdError c t \<noteq> empty_response"
  by (simp add: cmdError_def empty_response_def)

lemma channelsLinked_log_call [simp]: "channelsLinked (log_call c p) = channelsLinked p"
  by (simp add: log_call_def)

lemma channelsLinked_KVSet [simp]: "channelsLinked (fst (KVSet e k v p)) = channelsLinked p"
  by (simp add: KVSet_def Let_def split: option.splits)

lemma channelsLinked_sendBotEphemeralPost [simp]:
  "channelsLinked (sendBotEphemeralPost u c t p) = channelsLinked p"
  by (simp add: sendBotEphemeralPost_def)

lemma subscribeToChannel_cmd_channelsLinked:
  "subscribeToChannel_cmd e l p = (p', r) \<Longrightarrow> channelsLinked p' = channelsLinked p"
  by (auto simp add: subscribeToChannel_cmd_def Let_def
        split: outcome.splits sum.splits option.splits)

lemma saveChannelsLinked_channelsLinked:
  "saveChannelsLinked e p = (p', r) \<Longrightarrow> channelsLinked p' = channelsLinked p"
  using channelsLinked_KVSet [of e "''channelsLinked''" "json_Marshal e (channelsLinked p)" p]
  by (simp add: saveChannelsLinked_def)

lemma unsubscribeFromChannel_channelsLinked:
  "unsubscribeFromChannel e l p = (p', r) \<Longrightarrow> channelsLinked p' = channelsLinked p"
  by (auto simp add: unsubscribeFromChannel_def Let_def split: unsubscribe_result.splits)

text \<open>The two commands of the scenario go through.\<close>

lemma scenario_link_command:
  "executeLinkCommand scenario_env scenario_args [''rT'', ''rC''] scenario_plugin =
     (scenario_linked, Returns empty_response)"
  by (simp add: scenario_linked_def executeLinkCommand_def scenario_defs canLinkChannel_def
        lookup_link_def subscribeToChannel_cmd_def getURL_def HasSuffix_def pluginID_def
        saveChannelsLinked_def KVSet_def sendBotEphemeralPost_def log_call_def Let_def)

lemma scenario_unlink_command:
  "executeUnlinkCommand scenario_env scenario_args scenario_linked =
     (scenario_unlinked, Returns empty_response)"
  by (simp add: scenario_unlinked_def scenario_linked_eq executeUnlinkCommand_def scenario_defs
        canLinkChannel_def lookup_link_def unsubscribeFromChannel_def
        saveChannelsLinked_def KVSet_def sendBotEphemeralPost_def log_call_def Let_def)

lemma scenario_unlinked_channelsLinked: "channelsLinked scenario_unlinked = Some Map.empty"
  by (simp add: scenario_unlinked_def scenario_linked_eq executeUnlinkCommand_def scenario_defs
        canLinkChannel_def lookup_link_def unsubscribeFromChannel_def
        saveChannelsLinked_def KVSet_def sendBotEphemeralPost_def log_call_def Let_def)

text \<open>What a link command that went through has done to the registry.\<close>

lemma executeLinkCommand_success:
  assumes "executeLinkCommand e args parameters p = (p1, Returns empty_response)"
  shows "\<exists>channel m link.
           API_GetChannel e (args_ChannelId args) = Some channel
         \<and> canLinkChannel e args channel
         \<and> channelsLinked p = Some m
         \<and> m (link_key channel) = None
         \<and> channelsLinked p1 = Some (m(link_key channel \<mapsto> link))"
proof -
  from assms obtain channel where ch: "API_GetChannel e (args_ChannelId args) = Some channel"
    by (cases "API_GetChannel e (args_ChannelId args)")
       (auto simp add: executeLinkCommand_def split: if_splits)
  from assms ch have can: "canLinkChannel e args channel"
    by (auto simp add: executeLinkCommand_def split: if_splits)
  from assms ch can obtain m where m: "channelsLinked p = Some m"
    by (cases "channelsLinked p")
       (auto simp add: executeLinkCommand_def lookup_link_def Let_def split: if_splits sum.splits)
  from assms ch can m have free: "m (link_key channel) = None"
    by (auto simp add: executeLinkCommand_def lookup_link_def split: if_splits option.splits)
  from assms ch can m free
  have "\<exists>link. channelsLinked p1 = Some (m(link_key channel \<mapsto> link))"
    by (auto simp add: executeLinkCommand_def lookup_link_def Let_def
          dest!: subscribeToChannel_cmd_channelsLinked saveChannelsLinked_channelsLinked
          split: if_splits prod.splits outcome.splits sum.splits option.splits)
  with ch can m free show ?thesis by blast
qed

lemma executeUnlinkCommand_success:
  assumes "executeUnlinkCommand e args p = (p', Returns empty_response)"
      and "API_GetChannel e (args_ChannelId args) = Some channel"
  shows "lookup_link (channelsLinked p') (link_key channel) = None"
  using assms
  by (auto simp add: executeUnlinkCommand_def lookup_link_def Let_def
        dest!: unsubscribeFromChannel_channelsLinked saveChannelsLinked_channelsLinked
        split: if_splits prod.splits option.splits)

lemma executeUnlinkCommand_not_linked:
  assumes "API_GetChannel e (args_ChannelId args) = Some channel"
      and "canLinkChannel e args channel"
      and "lookup_link (channelsLinked p) (link_key channel) = None"
  shows "executeUnlinkCommand e args p =
           (p, Returns (cmdError (args_ChannelId args) (''Link doesn'' @ [CHR 0x27] @ ''t exist.'')))"
  using assms by (simp add: executeUnlinkCommand_def)

text \<open>
  C6. When a link command has gone through and the unlink command that follows it, for
  the same channel and with the same collaborators, has gone through as well, the key of
  the channel held no link before, held the link in between, and holds none again; and
  a second unlink command fails with the response that the link does not exist, leaving
  the plugin as it was.
\<close>

theorem link_then_unlink_restores_not_found:
  assumes "executeLinkCommand e args parameters p = (p1, Returns empty_response)"
      and "executeUnlinkCommand e args p1 = (p2, Returns empty_response)"
  shows "\<exists>channel link.
           API_GetChannel e (args_ChannelId args) = Some channel
         \<and> lookup_link (channelsLinked p) (link_key channel) = None
         \<and> lookup_link (channelsLinked p1) (link_key channel) = Some link
         \<and> lookup_link (channelsLinked p2) (link_key channel) = None
         \<and> executeUnlinkCommand e args p2 =
             (p2, Returns (cmdError (args_ChannelId args)
                             (''Link doesn'' @ [CHR 0x27] @ ''t exist.'')))"
proof -
  from executeLinkCommand_success [OF assms(1)]
  obtain channel m link where
        ch: "API_GetChannel e (args_ChannelId args) = Some channel"
    and can: "canLinkChannel e args channel"
    and m: "channelsLinked p = Some m"
    and free: "m (link_key channel) = None"
    and ins: "channelsLinked p1 = Some (m(link_key channel \<mapsto> link))"
    by blast
  have before: "lookup_link (channelsLinked p) (link_key channel) = None"
    using m free by (simp add: lookup_link_def)
  have found: "lookup_link (channelsLinked p1) (link_key channel) = Some link"
    using ins by (simp add: lookup_link_def)
  have gone: "lookup_link (channelsLinked p2) (link_key channel) = None"
    by (rule executeUnlinkCommand_success [OF assms(2) ch])
  have again: "executeUnlinkCommand e args p2 =
                 (p2, Returns (cmdError (args_ChannelId args)
                                 (''Link doesn'' @ [CHR 0x27] @ ''t exist.'')))"
    by (rule executeUnlinkCommand_not_linked [OF ch can gone])
  from ch before found gone again show ?thesis by blast
qed

theorem link_then_unlink_restores_not_found_witness:
  "executeLinkCommand scenario_env scenario_args [''rT'', ''rC''] scenario_plugin =
     (scenario_linked, Returns empty_response)
   \<and> executeUnlinkCommand scenario_env scenario_args scenario_linked =
       (scenario_unlinked, Returns empty_response)
   \<and> lookup_link (channelsLinked scenario_plugin) ''T1:C1'' = None
   \<and> lookup_link (channelsLinked scenario_linked) ''T1:C1'' = Some scenario_link
   \<and> lookup_link (channelsLinked scenario_unlinked) ''T1:C1'' = None
   \<and> executeUnlinkCommand scenario_env scenario_args scenario_unlinked =
       (scenario_unlinked,
        Returns (cmdError ''C1'' (''Link doesn'' @ [CHR 0x27] @ ''t exist.'')))"
proof -
  from link_then_unlink_restores_not_found [OF scenario_link_command scenario_unlink_command]
  obtain channel link where
        ch: "API_GetChannel scenario_env (args_ChannelId scenario_args) = Some channel"
    and before: "lookup_link (channelsLinked scenario_plugin) (link_key channel) = None"
    and found: "lookup_link (channelsLinked scenario_linked) (link_key channel) = Some link"
    and gone: "lookup_link (channelsLinked scenario_unlinked) (link_key channel) = None"
    and again: "executeUnlinkCommand scenario_env scenario_args scenario_unlinked =
                  (scenario_unlinked,
                   Returns (cmdError (args_ChannelId scenario_args)
                              (''Link doesn'' @ [CHR 0x27] @ ''t exist.'')))"
    by blast
  from ch have "channel = scenario_channel"
    by (simp add: scenario_env_def scenario_args_def)
  then have key: "link_key channel = ''T1:C1''"
    by (simp add: scenario_channel_def)
  from found key have "link = scenario_link"
    by (simp add: scenario_linked_eq lookup_link_def)
  moreover have "args_ChannelId scenario_args = ''C1''"
    by (simp add: scenario_args_def)
  ultimately show ?thesis
    using before found gone again key
    by (simp add: scenario_link_command scenario_unlink_command)
qed

lemma scenario_getURL:
  "getURL scenario_env = Returns ''https://mm.example.com/plugins/com.mattermost.matterbridge-plugin''"
  by (simp add: scenario_env_def getURL_def HasSuffix_def pluginID_def)

lemma scenario_canLinkChannel: "canLinkChannel scenario_env scenario_args scenario_channel"
  by (simp add: canLinkChannel_def scenario_env_def scenario_channel_def)

text \<open>
  C7, as the code has it. Past the checks of the command (two parameters, a team that is
  enabled, a channel the server knows and the user may manage): when the key of the
  channel already holds a link, the command fails with the response that a link exists and
  leaves the plugin as it was. When it holds none and the MS Teams side does not know the
  remote channel, the command fails with the response that the channel was not found and
  again leaves the plugin as it was. When it holds none, the registry is initialised and
  the remote channel is found, the link is inserted; and when the subscription then
  succeeds, the snapshot of the registry with the new link is written to the store under
  \<^verbatim>\<open>channelsLinked\<close>, where it is held, with the command going through, when the store
  accepts the write.
\<close>

theorem executeLinkCommand_already_linked_or_inserts:
  assumes "2 \<le> length parameters"
      and "checkEnabledTeamByTeamId e (args_TeamId args)"
      and "API_GetChannel e (args_ChannelId args) = Some channel"
      and "canLinkChannel e args channel"
  shows "(lookup_link (channelsLinked p) (link_key channel) = Some l
          \<longrightarrow> executeLinkCommand e args parameters p =
                (p, Returns (cmdError (args_ChannelId args)
                   ''A link for this channel already exists, please remove unlink the channel before you link a new one'')))
       \<and> (lookup_link (channelsLinked p) (link_key channel) = None
          \<and> msteams_GetChannel e (parameters ! 0) (parameters ! 1) = Inl err
          \<longrightarrow> executeLinkCommand e args parameters p =
                (p, Returns (cmdError (args_ChannelId args) ''MS Teams channel not found.'')))
       \<and> (channelsLinked p = Some m
          \<and> m (link_key channel) = None
          \<and> msteams_GetChannel e (parameters ! 0) (parameters ! 1) = Inr c
          \<longrightarrow> channelsLinked (fst (executeLinkCommand e args parameters p)) =
                Some (m(link_key channel \<mapsto> link_of channel parameters))
            \<and> (getURL e = Returns url
               \<and> SubscribeToChannel e (parameters ! 0) (parameters ! 1) (url @ ''/'') = Inr sid
               \<and> subscriptionsToLinks p = Some idx
               \<longrightarrow> KVSet_call ''channelsLinked''
                     (json_Marshal e (Some (m(link_key channel \<mapsto> link_of channel parameters))))
                     \<in> set (calls (fst (executeLinkCommand e args parameters p)))
                 \<and> (API_KVSet_error e ''channelsLinked''
                       (json_Marshal e
                          (Some (m(link_key channel \<mapsto> link_of channel parameters)))) = None
                    \<longrightarrow> kv (fst (executeLinkCommand e args parameters p)) ''channelsLinked'' =
                          Some (json_Marshal e
                                  (Some (m(link_key channel \<mapsto> link_of channel parameters))))
                      \<and> snd (executeLinkCommand e args parameters p) = Returns empty_response)))"
proof (intro conjI impI)
  assume "lookup_link (channelsLinked p) (link_key channel) = Some l"
  with assms show "executeLinkCommand e args parameters p =
                (p, Returns (cmdError (args_ChannelId args)
                   ''A link for this channel already exists, please remove unlink the channel before you link a new one''))"
    by (simp add: executeLinkCommand_def)
next
  assume "lookup_link (channelsLinked p) (link_key channel) = None
          \<and> msteams_GetChannel e (parameters ! 0) (parameters ! 1) = Inl err"
  with assms show "executeLinkCommand e args parameters p =
                (p, Returns (cmdError (args_ChannelId args) ''MS Teams channel not found.''))"
    by (simp add: executeLinkCommand_def)
next
  assume ins: "channelsLinked p = Some m
          \<and> m (link_key channel) = None
          \<and> msteams_GetChannel e (parameters ! 0) (parameters ! 1) = Inr c"
  with assms show "channelsLinked (fst (executeLinkCommand e args parameters p)) =
                Some (m(link_key channel \<mapsto> link_of channel parameters))"
    by (simp add: executeLinkCommand_def lookup_link_def Let_def subscribeToChannel_cmd_def
          saveChannelsLinked_def KVSet_def log_call_def sendBotEphemeralPost_def
          split: outcome.splits sum.splits option.splits)
  assume sub: "getURL e = Returns url
               \<and> SubscribeToChannel e (parameters ! 0) (parameters ! 1) (url @ ''/'') = Inr sid
               \<and> subscriptionsToLinks p = Some idx"
  with assms ins show "KVSet_call ''channelsLinked''
                     (json_Marshal e (Some (m(link_key channel \<mapsto> link_of channel parameters))))
                     \<in> set (calls (fst (executeLinkCommand e args parameters p)))"
    by (simp add: executeLinkCommand_def lookup_link_def Let_def subscribeToChannel_cmd_def
          saveChannelsLinked_def KVSet_def log_call_def sendBotEphemeralPost_def
          split: option.splits)
  assume "API_KVSet_error e ''channelsLinked''
            (json_Marshal e (Some (m(link_key channel \<mapsto> link_of channel parameters)))) = None"
  with assms ins sub
  show "kv (fst (executeLinkCommand e args parameters p)) ''channelsLinked'' =
          Some (json_Marshal e (Some (m(link_key channel \<mapsto> link_of channel parameters))))"
   and "snd (executeLinkCommand e args parameters p) = Returns empty_response"
    by (simp_all add: executeLinkCommand_def lookup_link_def Let_def subscribeToChannel_cmd_def
          saveChannelsLinked_def KVSet_def log_call_def sendBotEphemeralPost_def)
qed

theorem executeLinkCommand_already_linked_or_inserts_witness:
  "(lookup_link (channelsLinked scenario_linked) ''T1:C1'' = Some scenario_link
    \<and> executeLinkCommand scenario_env scenario_args [''rT2'', ''rC2''] scenario_linked =
        (scenario_linked,
         Returns (cmdError ''C1''
           ''A link for this channel already exists, please remove unlink the channel before you link a new one'')))
   \<and> (lookup_link (channelsLinked scenario_plugin) ''T1:C1'' = None
    \<and> msteams_GetChannel scenario_env_no_remote_channel ''rT'' ''rC'' = Inl ''not found''
    \<and> executeLinkCommand scenario_env_no_remote_channel scenario_args [''rT'', ''rC'']
         scenario_plugin =
        (scenario_plugin, Returns (cmdError ''C1'' ''MS Teams channel not found.'')))
   \<and> (channelsLinked scenario_plugin = Some Map.empty
    \<and> channelsLinked (fst (executeLinkCommand scenario_env scenario_args [''rT'', ''rC'']
                              scenario_plugin)) = Some [''T1:C1'' \<mapsto> scenario_link]
    \<and> KVSet_call ''channelsLinked'' ''snapshot''
        \<in> set (calls (fst (executeLinkCommand scenario_env scenario_args [''rT'', ''rC'']
                              scenario_plugin)))
    \<and> kv (fst (executeLinkCommand scenario_env scenario_args [''rT'', ''rC''] scenario_plugin))
          ''channelsLinked'' = Some ''snapshot''
    \<and> snd (executeLinkCommand scenario_env scenario_args [''rT'', ''rC''] scenario_plugin)
        = Returns empty_response)"
proof -
  have len: "2 \<le> length [''rT'', ''rC'']" and len2: "2 \<le> length [''rT2'', ''rC2'']"
    by simp_all
  have a: "args_ChannelId scenario_args = ''C1''"
    by (simp add: scenario_args_def)
  have key: "link_key scenario_channel = ''T1:C1''"
    by (simp add: scenario_channel_def)
  have lnk: "link_of scenario_channel [''rT'', ''rC''] = scenario_link"
    by (simp add: scenario_channel_def scenario_link_def)
  have en: "checkEnabledTeamByTeamId scenario_env (args_TeamId scenario_args)"
    by (simp add: scenario_env_def)
  have ch: "API_GetChannel scenario_env (args_ChannelId scenario_args) = Some scenario_channel"
    by (simp add: scenario_env_def scenario_args_def)
  have en': "checkEnabledTeamByTeamId scenario_env_no_remote_channel (args_TeamId scenario_args)"
    by (simp add: scenario_env_no_remote_channel_def scenario_env_def)
  have ch': "API_GetChannel scenario_env_no_remote_channel (args_ChannelId scenario_args)
               = Some scenario_channel"
    by (simp add: scenario_env_no_remote_channel_def scenario_env_def scenario_args_def)
  have can': "canLinkChannel scenario_env_no_remote_channel scenario_args scenario_channel"
    by (simp add: canLinkChannel_def scenario_env_no_remote_channel_def scenario_env_def
          scenario_channel_def)
  have linked: "lookup_link (channelsLinked scenario_linked) (link_key scenario_channel)
                  = Some scenario_link"
    by (simp add: scenario_linked_eq lookup_link_def scenario_channel_def)
  have free: "lookup_link (channelsLinked scenario_plugin) (link_key scenario_channel) = None
              \<and> msteams_GetChannel scenario_env_no_remote_channel
                   ([''rT'', ''rC''] ! 0) ([''rT'', ''rC''] ! 1) = Inl ''not found''"
    by (simp add: scenario_plugin_def lookup_link_def scenario_env_no_remote_channel_def)
  have h3: "channelsLinked scenario_plugin = Some Map.empty
          \<and> Map.empty (link_key scenario_channel) = (None :: ChannelLink option)
          \<and> msteams_GetChannel scenario_env ([''rT'', ''rC''] ! 0) ([''rT'', ''rC''] ! 1)
              = Inr \<lparr>mschannel_ID = ''rC'', mschannel_DisplayName = ''General''\<rparr>"
    by (simp add: scenario_plugin_def scenario_env_def)
  have h4: "getURL scenario_env =
              Returns ''https://mm.example.com/plugins/com.mattermost.matterbridge-plugin''
          \<and> SubscribeToChannel scenario_env ([''rT'', ''rC''] ! 0) ([''rT'', ''rC''] ! 1)
               (''https://mm.example.com/plugins/com.mattermost.matterbridge-plugin'' @ ''/'')
              = Inr ''sub1''
          \<and> subscriptionsToLinks scenario_plugin = Some Map.empty"
    using scenario_getURL by (simp add: scenario_env_def scenario_plugin_def)
  have m5: "json_Marshal scenario_env (Some [''T1:C1'' \<mapsto> scenario_link]) = ''snapshot''"
    by (simp add: scenario_env_def)
  have h5: "API_KVSet_error scenario_env ''channelsLinked'' ''snapshot'' = None"
    by (simp add: scenario_env_def)
  from executeLinkCommand_already_linked_or_inserts
         [OF len2 en ch scenario_canLinkChannel, of scenario_linked scenario_link] linked
  have part1: "executeLinkCommand scenario_env scenario_args [''rT2'', ''rC2''] scenario_linked =
        (scenario_linked,
         Returns (cmdError ''C1''
           ''A link for this channel already exists, please remove unlink the channel before you link a new one''))"
    unfolding a by blast
  from executeLinkCommand_already_linked_or_inserts
         [OF len en' ch' can', of scenario_plugin _ "''not found''"] free
  have part2: "executeLinkCommand scenario_env_no_remote_channel scenario_args [''rT'', ''rC'']
         scenario_plugin =
        (scenario_plugin, Returns (cmdError ''C1'' ''MS Teams channel not found.''))"
    unfolding a by blast
  from executeLinkCommand_already_linked_or_inserts
         [OF len en ch scenario_canLinkChannel, of scenario_plugin _ _ Map.empty
            "\<lparr>mschannel_ID = ''rC'', mschannel_DisplayName = ''General''\<rparr>"
            "''https://mm.example.com/plugins/com.mattermost.matterbridge-plugin''"
            "''sub1''" Map.empty] h3 h4
  have part3: "channelsLinked (fst (executeLinkCommand scenario_env scenario_args [''rT'', ''rC'']
                              scenario_plugin)) = Some [''T1:C1'' \<mapsto> scenario_link]
    \<and> KVSet_call ''channelsLinked'' ''snapshot''
        \<in> set (calls (fst (executeLinkCommand scenario_env scenario_args [''rT'', ''rC'']
                              scenario_plugin)))
    \<and> kv (fst (executeLinkCommand scenario_env scenario_args [''rT'', ''rC''] scenario_plugin))
          ''channelsLinked'' = Some ''snapshot''
    \<and> snd (executeLinkCommand scenario_env scenario_args [''rT'', ''rC''] scenario_plugin)
        = Returns empty_response"
    unfolding key lnk m5 using h5 by blast
  from linked free h3 part1 part2 part3 show ?thesis
    unfolding key by simp
qed

text \<open>
  C7 as stated fails on its second half: the key holds no link and the remote channel is
  not found, and the link is not inserted.
\<close>

theorem executeLinkCommand_not_inserted_counterexample:
  "\<not> (lookup_link (channelsLinked scenario_plugin) ''T1:C1'' = None
       \<longrightarrow> lookup_link
             (channelsLinked
                (fst (executeLinkCommand scenario_env_no_remote_channel scenario_args
                        [''rT'', ''rC''] scenario_plugin))) ''T1:C1''
           = Some scenario_link)"
  by (simp add: executeLinkCommand_def scenario_env_no_remote_channel_def scenario_defs
        canLinkChannel_def lookup_link_def)

text \<open>
  C2, as the code has it. Neither command undoes its change of the registry when the
  write of the snapshot fails. A link command whose write fails answers that the link
  could not be stored and leaves the new link in the registry; an unlink command whose
  write fails answers the same and leaves the link removed. In both cases the store is
  as it was, so the registry in memory and the snapshot in the store differ.
\<close>

theorem store_failure_keeps_mutation:
  assumes "API_GetChannel e (args_ChannelId args) = Some channel"
      and "canLinkChannel e args channel"
      and "channelsLinked p = Some m"
  shows "(2 \<le> length parameters
          \<and> checkEnabledTeamByTeamId e (args_TeamId args)
          \<and> m (link_key channel) = None
          \<and> msteams_GetChannel e (parameters ! 0) (parameters ! 1) = Inr c
          \<and> getURL e = Returns url
          \<and> SubscribeToChannel e (parameters ! 0) (parameters ! 1) (url @ ''/'') = Inr sid
          \<and> subscriptionsToLinks p = Some idx
          \<and> API_KVSet_error e ''channelsLinked''
               (json_Marshal e (Some (m(link_key channel \<mapsto> link_of channel parameters))))
              = Some err
          \<longrightarrow> snd (executeLinkCommand e args parameters p) =
                Returns (cmdError (args_ChannelId args)
                           ''Unable to store the new link, please try again.'')
            \<and> channelsLinked (fst (executeLinkCommand e args parameters p)) =
                Some (m(link_key channel \<mapsto> link_of channel parameters))
            \<and> kv (fst (executeLinkCommand e args parameters p)) = kv p)
       \<and> (m (link_key channel) = Some l
          \<and> (msteams_Unsubscribe e (MSTeamsTeam l) (MSTeamsChannel l) = Unsubscribed
             \<or> msteams_Unsubscribe e (MSTeamsTeam l) (MSTeamsChannel l) = SubscriptionNotFound)
          \<and> API_KVSet_error e ''channelsLinked''
               (json_Marshal e (Some (m(link_key channel := None)))) = Some err'
          \<longrightarrow> snd (executeUnlinkCommand e args p) =
                Returns (cmdError (args_ChannelId args)
                           ''Unable to store the new link, please try again.'')
            \<and> channelsLinked (fst (executeUnlinkCommand e args p)) =
                Some (m(link_key channel := None))
            \<and> kv (fst (executeUnlinkCommand e args p)) = kv p)"
proof (intro conjI impI)
  assume "2 \<le> length parameters
          \<and> checkEnabledTeamByTeamId e (args_TeamId args)
          \<and> m (link_key channel) = None
          \<and> msteams_GetChannel e (parameters ! 0) (parameters ! 1) = Inr c
          \<and> getURL e = Returns url
          \<and> SubscribeToChannel e (parameters ! 0) (parameters ! 1) (url @ ''/'') = Inr sid
          \<and> subscriptionsToLinks p = Some idx
          \<and> API_KVSet_error e ''channelsLinked''
               (json_Marshal e (Some (m(link_key channel \<mapsto> link_of channel parameters))))
              = Some err"
  with assms
  show "snd (executeLinkCommand e args parameters p) =
          Returns (cmdError (args_ChannelId args)
                     ''Unable to store the new link, please try again.'')"
   and "channelsLinked (fst (executeLinkCommand e args parameters p)) =
          Some (m(link_key channel \<mapsto> link_of channel parameters))"
   and "kv (fst (executeLinkCommand e args parameters p)) = kv p"
    by (simp_all add: executeLinkCommand_def lookup_link_def Let_def subscribeToChannel_cmd_def
          saveChannelsLinked_def KVSet_def log_call_def)
next
  assume "m (link_key channel) = Some l
          \<and> (msteams_Unsubscribe e (MSTeamsTeam l) (MSTeamsChannel l) = Unsubscribed
             \<or> msteams_Unsubscribe e (MSTeamsTeam l) (MSTeamsChannel l) = SubscriptionNotFound)
          \<and> API_KVSet_error e ''channelsLinked''
               (json_Marshal e (Some (m(link_key channel := None)))) = Some err'"
  with assms
  show "snd (executeUnlinkCommand e args p) =
          Returns (cmdError (args_ChannelId args)
                     ''Unable to store the new link, please try again.'')"
   and "channelsLinked (fst (executeUnlinkCommand e args p)) =
          Some (m(link_key channel := None))"
   and "kv (fst (executeUnlinkCommand e args p)) = kv p"
    by (auto simp add: executeUnlinkCommand_def lookup_link_def Let_def unsubscribeFromChannel_def
          saveChannelsLinked_def KVSet_def log_call_def)
qed

theorem store_failure_keeps_mutation_witness:
  "(channelsLinked scenario_plugin = Some Map.empty
    \<and> API_KVSet_error scenario_env_store_fails ''channelsLinked'' ''snapshot''
        = Some ''store unavailable''
    \<and> snd (executeLinkCommand scenario_env_store_fails scenario_args [''rT'', ''rC'']
             scenario_plugin)
        = Returns (cmdError ''C1'' ''Unable to store the new link, please try again.'')
    \<and> channelsLinked (fst (executeLinkCommand scenario_env_store_fails scenario_args
             [''rT'', ''rC''] scenario_plugin))
        = Some [''T1:C1'' \<mapsto> scenario_link]
    \<and> kv (fst (executeLinkCommand scenario_env_store_fails scenario_args [''rT'', ''rC'']
             scenario_plugin)) = Map.empty)
   \<and> (channelsLinked scenario_linked = Some [''T1:C1'' \<mapsto> scenario_link]
    \<and> msteams_Unsubscribe scenario_env_store_fails ''rT'' ''rC'' = Unsubscribed
    \<and> snd (executeUnlinkCommand scenario_env_store_fails scenario_args scenario_linked)
        = Returns (cmdError ''C1'' ''Unable to store the new link, please try again.'')
    \<and> channelsLinked (fst (executeUnlinkCommand scenario_env_store_fails scenario_args
             scenario_linked)) = Some Map.empty
    \<and> kv (fst (executeUnlinkCommand scenario_env_store_fails scenario_args scenario_linked))
        = [''channelsLinked'' \<mapsto> ''snapshot''])"
proof -
  have ch: "API_GetChannel scenario_env_store_fails (args_ChannelId scenario_args)
              = Some scenario_channel"
    by (simp add: scenario_env_store_fails_def scenario_env_def scenario_args_def)
  have can: "canLinkChannel scenario_env_store_fails scenario_args scenario_channel"
    by (simp add: canLinkChannel_def scenario_env_store_fails_def scenario_env_def
          scenario_channel_def)
  have url: "getURL scenario_env_store_fails =
               Returns ''https://mm.example.com/plugins/com.mattermost.matterbridge-plugin''"
    by (simp add: scenario_env_store_fails_def scenario_env_def getURL_def HasSuffix_def
          pluginID_def)
  have fresh: "channelsLinked scenario_plugin = Some Map.empty"
    by (simp add: scenario_plugin_def)
  have linked: "channelsLinked scenario_linked = Some [''T1:C1'' \<mapsto> scenario_link]"
    by (simp add: scenario_linked_eq)
  have key: "link_key scenario_channel = ''T1:C1''"
    by (simp add: scenario_channel_def)
  have lnk: "link_of scenario_channel [''rT'', ''rC''] = scenario_link"
    by (simp add: scenario_channel_def scenario_link_def)
  have h1: "2 \<le> length [''rT'', ''rC'']
          \<and> checkEnabledTeamByTeamId scenario_env_store_fails (args_TeamId scenario_args)
          \<and> Map.empty (link_key scenario_channel) = (None :: ChannelLink option)
          \<and> msteams_GetChannel scenario_env_store_fails ([''rT'', ''rC''] ! 0) ([''rT'', ''rC''] ! 1)
              = Inr \<lparr>mschannel_ID = ''rC'', mschannel_DisplayName = ''General''\<rparr>
          \<and> getURL scenario_env_store_fails =
              Returns ''https://mm.example.com/plugins/com.mattermost.matterbridge-plugin''
          \<and> SubscribeToChannel scenario_env_store_fails ([''rT'', ''rC''] ! 0) ([''rT'', ''rC''] ! 1)
               (''https://mm.example.com/plugins/com.mattermost.matterbridge-plugin'' @ ''/'')
              = Inr ''sub1''
          \<and> subscriptionsToLinks scenario_plugin = Some Map.empty
          \<and> API_KVSet_error scenario_env_store_fails ''channelsLinked''
               (json_Marshal scenario_env_store_fails
                  (Some [link_key scenario_channel \<mapsto> link_of scenario_channel [''rT'', ''rC'']]))
              = Some ''store unavailable''"
    using url
    by (simp add: scenario_env_store_fails_def scenario_env_def scenario_plugin_def)
  have h2: "[''T1:C1'' \<mapsto> scenario_link] (link_key scenario_channel) = Some scenario_link
          \<and> (msteams_Unsubscribe scenario_env_store_fails (MSTeamsTeam scenario_link)
                (MSTeamsChannel scenario_link) = Unsubscribed
             \<or> msteams_Unsubscribe scenario_env_store_fails (MSTeamsTeam scenario_link)
                (MSTeamsChannel scenario_link) = SubscriptionNotFound)
          \<and> API_KVSet_error scenario_env_store_fails ''channelsLinked''
               (json_Marshal scenario_env_store_fails
                  (Some ([''T1:C1'' \<mapsto> scenario_link](link_key scenario_channel := None))))
              = Some ''store unavailable''"
    by (simp add: scenario_channel_def scenario_link_def scenario_env_store_fails_def
          scenario_env_def)
  have a: "args_ChannelId scenario_args = ''C1''"
    by (simp add: scenario_args_def)
  from store_failure_keeps_mutation
         [OF ch can fresh, of "[''rT'', ''rC'']"
            "\<lparr>mschannel_ID = ''rC'', mschannel_DisplayName = ''General''\<rparr>"
            "''https://mm.example.com/plugins/com.mattermost.matterbridge-plugin''"
            "''sub1''" Map.empty "''store unavailable''"] h1
  have link_part:
    "snd (executeLinkCommand scenario_env_store_fails scenario_args [''rT'', ''rC'']
             scenario_plugin)
        = Returns (cmdError ''C1'' ''Unable to store the new link, please try again.'')
    \<and> channelsLinked (fst (executeLinkCommand scenario_env_store_fails scenario_args
             [''rT'', ''rC''] scenario_plugin))
        = Some [''T1:C1'' \<mapsto> scenario_link]
    \<and> kv (fst (executeLinkCommand scenario_env_store_fails scenario_args [''rT'', ''rC'']
             scenario_plugin)) = Map.empty"
    unfolding a lnk key by (simp add: scenario_plugin_def)
  from store_failure_keeps_mutation
         [OF ch can linked, of _ _ _ _ _ _ scenario_link "''store unavailable''"] h2
  have unlink_part:
    "snd (executeUnlinkCommand scenario_env_store_fails scenario_args scenario_linked)
        = Returns (cmdError ''C1'' ''Unable to store the new link, please try again.'')
    \<and> channelsLinked (fst (executeUnlinkCommand scenario_env_store_fails scenario_args
             scenario_linked)) = Some Map.empty
    \<and> kv (fst (executeUnlinkCommand scenario_env_store_fails scenario_args scenario_linked))
        = [''channelsLinked'' \<mapsto> ''snapshot'']"
    unfolding a key by (simp add: scenario_linked_eq)
  have "API_KVSet_error scenario_env_store_fails ''channelsLinked'' ''snapshot''
          = Some ''store unavailable''"
    by (simp add: scenario_env_store_fails_def)
  moreover have "msteams_Unsubscribe scenario_env_store_fails ''rT'' ''rC'' = Unsubscribed"
    by (simp add: scenario_env_store_fails_def scenario_env_def)
  ultimately show ?thesis
    using fresh linked link_part unlink_part by simp
qed

text \<open>
  C2 as stated fails: the store refuses the snapshot, and the registry after the link
  command is not the registry before it.
\<close>

theorem store_failure_rollback_counterexample:
  "\<not> (API_KVSet_error scenario_env_store_fails ''channelsLinked''
          (json_Marshal scenario_env_store_fails (Some [''T1:C1'' \<mapsto> scenario_link]))
        = Some ''store unavailable''
       \<longrightarrow> channelsLinked (fst (executeLinkCommand scenario_env_store_fails scenario_args
                [''rT'', ''rC''] scenario_plugin))
           = channelsLinked scenario_plugin)"
  by (simp add: executeLinkCommand_def scenario_env_store_fails_def scenario_defs
        canLinkChannel_def lookup_link_def subscribeToChannel_cmd_def getURL_def HasSuffix_def
        pluginID_def saveChannelsLinked_def KVSet_def log_call_def Let_def fun_eq_iff)

end
